theory Spec2Isabelle
  imports Complex_Main "HOL-Library.Multiset"
begin

section \<open>Data model of the prediction page (app/page.tsx)\<close>

text \<open>
  JavaScript numbers that carry probabilities, times and durations are modelled as
  rationals; \<open>Date.now()\<close> is an integer number of milliseconds. A division whose
  divisor is zero is written out where the code divides (see \<open>js_div\<close>).
\<close>

text \<open>The browser's \<open>File\<close> object: name, byte size and MIME type.\<close>

record File =
  file_name :: string
  file_size :: nat
  file_type :: string

text \<open>\<open>useState<'disease' | 'annotation'>\<close>.\<close>

datatype Model = Disease | Annotation

text \<open>An element of \<open>annotationEvents\<close>: \<open>{type, timestamp, duration}\<close>.\<close>

record annotation_event =
  ev_type :: string
  ev_timestamp :: rat
  ev_duration :: rat

text \<open>\<open>audio_info: {duration, sample_rate}\<close>.\<close>

record audio_info =
  duration :: rat
  sample_rate :: rat

text \<open>An element of \<open>events\<close> of an annotation result: \<open>{start, end, label, confidence}\<close>.\<close>

record detected_event =
  ev_start :: rat
  ev_end :: rat
  ev_label :: string
  ev_confidence :: rat

text \<open>
  \<open>type PredictionResult = DiseasePredictionResult | AnnotationPredictionResult\<close>.
  \<open>class_probabilities\<close> is held as the list \<open>Object.entries\<close> yields for it. The
  renderer's tests \<open>'class_probabilities' in result\<close>, \<open>'events' in result\<close> and
  \<open>'prediction' in result\<close> are the case distinction on the constructor.
\<close>

datatype PredictionResult =
    DiseasePredictionResult
      (success: bool) (filename: string) (prediction: string) (confidence: rat)
      (class_probabilities: "(string \<times> rat) list") (audio_info: audio_info)
  | AnnotationPredictionResult
      (success: bool) (filename: string) (disease: string) (confidence: rat)
      (events: "detected_event list") (audio_info: audio_info)

text \<open>
  What the catch blocks read of a rejected axios call: \<open>err.response?.status\<close>,
  \<open>err.response?.data?.error\<close> (\<open>err.response?.data?.detail\<close> in src/App.jsx),
  \<open>err.code\<close> and \<open>err.message\<close>. An absent \<open>response\<close>, \<open>data.error\<close>,
  \<open>data.detail\<close> or \<open>code\<close> is \<open>None\<close>; the two data fields are strings when present.
\<close>

record response =
  status :: nat
  data_error :: "string option"
  data_detail :: "string option"

record AxiosError =
  response :: "response option"
  code :: "string option"
  message :: string

text \<open>The settlement of \<open>await axios.post(...)\<close>: resolved with \<open>response.data\<close>, or rejected.\<close>

datatype 'd outcome = Resolved 'd | Rejected AxiosError

text \<open>The arguments of one \<open>axios.post(url, data, {headers, timeout})\<close>.\<close>

datatype http_method = POST

datatype body =
    FormData "(string \<times> File) list"
  | Json "annotation_event list" rat

record request =
  http_method :: http_method
  url :: string
  data :: body
  content_type :: string
  timeout :: "nat option"

text \<open>
  The \<open>useState\<close> cells of \<open>Home\<close> that the session handlers read or write. The cells of
  the page chrome (\<open>mobileMenuOpen\<close>, \<open>activeSection\<close>, \<open>openFaq\<close>, \<open>isPlaying\<close>,
  \<open>currentTime\<close>) are touched by none of them and are left out.
\<close>

record state =
  "file" :: "File option"
  selectedModel :: Model
  isUploading :: bool
  result :: "PredictionResult option"
  error :: "string option"
  isRecording :: bool
  recordStartTime :: "int option"
  annotationEvents :: "annotation_event list"
  recordingDuration :: rat

text \<open>The initial values of the cells.\<close>

definition Home_initial :: state where
  "Home_initial =
     \<lparr>file = None, selectedModel = Disease, isUploading = False, result = None, error = None,
      isRecording = False, recordStartTime = None, annotationEvents = [],
      recordingDuration = 0\<rparr>"

section \<open>Request dispatcher\<close>

text \<open>
  \<open>const API_BASE_URL = process.env.NEXT_PUBLIC_API_URL || 'https://respirex-api-ml.onrender.com'\<close>;
  an unset or empty variable is falsy.
\<close>

definition API_BASE_URL :: "string option \<Rightarrow> string" where
  "API_BASE_URL env =
     (case env of
        None \<Rightarrow> ''https://respirex-api-ml.onrender.com''
      | Some u \<Rightarrow> if u = [] then ''https://respirex-api-ml.onrender.com'' else u)"

text \<open>Truthiness of \<open>err.response?.data?.error\<close>: present and not the empty string.\<close>

definition truthy :: "string option \<Rightarrow> bool" where
  "truthy v = (case v of None \<Rightarrow> False | Some t \<Rightarrow> t \<noteq> [])"

text \<open>\<open>err.response?.status === n\<close>.\<close>

definition status_is :: "AxiosError \<Rightarrow> nat \<Rightarrow> bool" where
  "status_is err n = (case response err of None \<Rightarrow> False | Some r \<Rightarrow> status r = n)"

text \<open>\<open>err.response?.data?.error\<close>.\<close>

definition response_data_error :: "AxiosError \<Rightarrow> string option" where
  "response_data_error err = (case response err of None \<Rightarrow> None | Some r \<Rightarrow> data_error r)"

text \<open>The catch block of the disease branch of \<open>handleUpload\<close> (lines 99 to 111).\<close>

definition disease_catch :: "AxiosError \<Rightarrow> string" where
  "disease_catch err =
     (if status_is err 500 then ''Server error. Please try again later.''
      else if truthy (response_data_error err) then ''Error: '' @ the (response_data_error err)
      else if code err = Some ''ECONNABORTED'' then
        ''Request timeout. The audio file might be too large.''
      else if status_is err 400 then ''Invalid audio file. Please upload a valid audio file.''
      else ''Failed to process audio file: '' @ message err)"

text \<open>The catch block of the annotation branch of \<open>handleUpload\<close> (lines 137 to 147).\<close>

definition annotation_catch :: "AxiosError \<Rightarrow> string" where
  "annotation_catch err =
     (if status_is err 500 then ''Server error. Please try again later.''
      else if truthy (response_data_error err) then ''Error: '' @ the (response_data_error err)
      else if code err = Some ''ECONNABORTED'' then ''Request timeout. Please try again.''
      else ''Failed to process annotation data: '' @ message err)"

text \<open>
  \<open>handleUpload\<close> up to its \<open>await\<close>: the guards, \<open>setIsUploading(true)\<close>,
  \<open>setError(null)\<close> and the arguments of \<open>axios.post\<close>. The second component is the
  request handed to axios, \<open>None\<close> when the handler returns before dispatching.
\<close>

definition handleUpload_dispatch :: "string option \<Rightarrow> state \<Rightarrow> state \<times> request option" where
  "handleUpload_dispatch env s =
     (case selectedModel s of
        Disease \<Rightarrow>
          (case file s of
             None \<Rightarrow> (s, None)
           | Some f \<Rightarrow>
               (s\<lparr>isUploading := True, error := None\<rparr>,
                Some \<lparr>http_method = POST,
                      url = API_BASE_URL env @ ''/predict_disease'',
                      data = FormData [(''file'', f)],
                      content_type = ''multipart/form-data'',
                      timeout = Some 30000\<rparr>))
      | Annotation \<Rightarrow>
          (if length (annotationEvents s) = 0 then
             (s\<lparr>error := Some ''Please record some crackles or wheezes first.''\<rparr>, None)
           else
             (s\<lparr>isUploading := True, error := None\<rparr>,
              Some \<lparr>http_method = POST,
                    url = API_BASE_URL env @ ''/predict_annotation'',
                    data = Json (annotationEvents s) (recordingDuration s),
                    content_type = ''application/json'',
                    timeout = Some 30000\<rparr>)))"

text \<open>
  \<open>handleUpload\<close> after its \<open>await\<close>, in the branch \<open>m\<close> that dispatched:
  \<open>setResult(response.data)\<close> or the catch block, then \<open>setIsUploading(false)\<close>.
\<close>

definition handleUpload_settle :: "Model \<Rightarrow> PredictionResult outcome \<Rightarrow> state \<Rightarrow> state" where
  "handleUpload_settle m out s =
     (case out of
        Resolved d \<Rightarrow> s\<lparr>result := Some d, isUploading := False\<rparr>
      | Rejected err \<Rightarrow>
          s\<lparr>error := Some (case m of Disease \<Rightarrow> disease_catch err
                                 | Annotation \<Rightarrow> annotation_catch err),
            isUploading := False\<rparr>)"

text \<open>
  One run of \<open>handleUpload\<close> against a network \<open>net\<close> that settles each request:
  the state it leaves and the requests it issued, in order.
\<close>

definition handleUpload ::
  "string option \<Rightarrow> (request \<Rightarrow> PredictionResult outcome) \<Rightarrow> state \<Rightarrow> state \<times> request list" where
  "handleUpload env net s =
     (case handleUpload_dispatch env s of
        (s', None) \<Rightarrow> (s', [])
      | (s', Some rq) \<Rightarrow> (handleUpload_settle (selectedModel s) (net rq) s', [rq]))"

text \<open>
  The submit button (lines 727 to 729) is the only caller of \<open>handleUpload\<close>. Its
  \<open>disabled\<close> attribute:
  \<open>(selectedModel === 'disease' && !file) ||
   (selectedModel === 'annotation' && annotationEvents.length === 0) || isUploading\<close>.
\<close>

definition submit_disabled :: "state \<Rightarrow> bool" where
  "submit_disabled s =
     ((selectedModel s = Disease \<and> file s = None) \<or>
      (selectedModel s = Annotation \<and> length (annotationEvents s) = 0) \<or>
      isUploading s)"

text \<open>
  A press of the submit button: a disabled button runs no handler, an enabled one runs
  \<open>handleUpload\<close>.
\<close>

definition press_submit ::
  "string option \<Rightarrow> (request \<Rightarrow> PredictionResult outcome) \<Rightarrow> state \<Rightarrow> state \<times> request list" where
  "press_submit env net s = (if submit_disabled s then (s, []) else handleUpload env net s)"

section \<open>Input collector\<close>

text \<open>The dropzone's \<open>onDrop\<close>: an empty list of accepted files is ignored.\<close>

definition onDrop :: "File list \<Rightarrow> state \<Rightarrow> state" where
  "onDrop acceptedFiles s =
     (case acceptedFiles of
        [] \<Rightarrow> s
      | f # _ \<Rightarrow> s\<lparr>file := Some f, error := None, result := None\<rparr>)"

text \<open>
  The recording handlers. Each takes the value \<open>Date.now()\<close> returns when it runs.
  \<open>recordStartTime\<close> is tested for truthiness, so a start time of 0 counts as absent.
\<close>

definition startRecording :: "int \<Rightarrow> state \<Rightarrow> state" where
  "startRecording now s =
     s\<lparr>isRecording := True, recordStartTime := Some now, annotationEvents := [],
       recordingDuration := 0, error := None, result := None\<rparr>"

definition stopRecording :: "int \<Rightarrow> state \<Rightarrow> state" where
  "stopRecording now s =
     (let s1 = s\<lparr>isRecording := False\<rparr>;
          s2 = (case recordStartTime s of
                  None \<Rightarrow> s1
                | Some t \<Rightarrow> if t \<noteq> 0 then s1\<lparr>recordingDuration := of_int (now - t) / 1000\<rparr> else s1)
      in s2\<lparr>recordStartTime := None\<rparr>)"

text \<open>\<open>recordStartTime ? (Date.now() - recordStartTime) / 1000 : 0\<close>.\<close>

definition press_timestamp :: "int option \<Rightarrow> int \<Rightarrow> rat" where
  "press_timestamp start now =
     (case start of None \<Rightarrow> 0 | Some t \<Rightarrow> if t \<noteq> 0 then of_int (now - t) / 1000 else 0)"

definition addCrackle :: "int \<Rightarrow> state \<Rightarrow> state" where
  "addCrackle now s =
     (if \<not> isRecording s then s
      else s\<lparr>annotationEvents := annotationEvents s @
                [\<lparr>ev_type = ''crackle'',
                  ev_timestamp = press_timestamp (recordStartTime s) now,
                  ev_duration = 1 / 2\<rparr>]\<rparr>)"

definition addWheeze :: "int \<Rightarrow> state \<Rightarrow> state" where
  "addWheeze now s =
     (if \<not> isRecording s then s
      else s\<lparr>annotationEvents := annotationEvents s @
                [\<lparr>ev_type = ''wheeze'',
                  ev_timestamp = press_timestamp (recordStartTime s) now,
                  ev_duration = 1\<rparr>]\<rparr>)"

definition clearAnnotations :: "state \<Rightarrow> state" where
  "clearAnnotations s = s\<lparr>annotationEvents := [], recordingDuration := 0, result := None\<rparr>"

text \<open>
  The user actions of the session and the settlement of a request, as one step function.
  \<open>Submit\<close> is a press of the submit button up to the handler's \<open>await\<close>, so it does
  nothing while the button is disabled. A settlement is allowed at any moment and in
  either branch, which covers every interleaving of an outstanding request with the
  other handlers.
\<close>

datatype action =
    Drop "File list"
  | RemoveFile
  | SelectModel Model
  | Submit
  | Settle Model "PredictionResult outcome"
  | StartRecording int
  | StopRecording int
  | AddCrackle int
  | AddWheeze int
  | ClearAnnotations

fun step :: "string option \<Rightarrow> state \<Rightarrow> action \<Rightarrow> state" where
  "step env s (Drop fs) = onDrop fs s"
| "step env s RemoveFile = s\<lparr>file := None\<rparr>"
| "step env s (SelectModel m) = s\<lparr>selectedModel := m\<rparr>"
| "step env s Submit = (if submit_disabled s then s else fst (handleUpload_dispatch env s))"
| "step env s (Settle m out) = handleUpload_settle m out s"
| "step env s (StartRecording now) = startRecording now s"
| "step env s (StopRecording now) = stopRecording now s"
| "step env s (AddCrackle now) = addCrackle now s"
| "step env s (AddWheeze now) = addWheeze now s"
| "step env s ClearAnnotations = clearAnnotations s"

definition run :: "string option \<Rightarrow> state \<Rightarrow> action list \<Rightarrow> state" where
  "run env s acts = foldl (step env) s acts"

text \<open>An action that opens or closes a recording window.\<close>

fun toggles_recording :: "action \<Rightarrow> bool" where
  "toggles_recording (StartRecording _) = True"
| "toggles_recording (StopRecording _) = True"
| "toggles_recording _ = False"

section \<open>Result renderer\<close>

text \<open>
  \<open>Array.prototype.sort(cmp)\<close>: the sort is stable, and an element \<open>x\<close> stays before \<open>y\<close>
  unless \<open>cmp x y > 0\<close>. Insertion from the right end gives that order.
\<close>

fun insort_cmp :: "('a \<Rightarrow> 'a \<Rightarrow> rat) \<Rightarrow> 'a \<Rightarrow> 'a list \<Rightarrow> 'a list" where
  "insort_cmp cmp x [] = [x]"
| "insort_cmp cmp x (y # ys) = (if cmp x y \<le> 0 then x # y # ys else y # insort_cmp cmp x ys)"

definition sort_cmp :: "('a \<Rightarrow> 'a \<Rightarrow> rat) \<Rightarrow> 'a list \<Rightarrow> 'a list" where
  "sort_cmp cmp xs = foldr (insort_cmp cmp) xs []"

text \<open>The comparator \<open>([,a], [,b]) => b - a\<close>.\<close>

definition by_probability_desc :: "string \<times> rat \<Rightarrow> string \<times> rat \<Rightarrow> rat" where
  "by_probability_desc x y = snd y - snd x"

text \<open>
  app/page.tsx, lines 800 to 803: the rows under the heading of the class probabilities,
  \<open>Object.entries(result.class_probabilities).sort(...).slice(0, 5)\<close>.
\<close>

definition probability_rows :: "(string \<times> rat) list \<Rightarrow> (string \<times> rat) list" where
  "probability_rows entries = take 5 (sort_cmp by_probability_desc entries)"

text \<open>The earlier page (src/unnamed/part_000, lines 320 to 322) has no \<open>slice\<close>.\<close>

definition probability_rows_part_000 :: "(string \<times> rat) list \<Rightarrow> (string \<times> rat) list" where
  "probability_rows_part_000 entries = sort_cmp by_probability_desc entries"

text \<open>\<open>'class_probabilities' in result && ...\<close>: no rows for the other result shape.\<close>

definition displayed_probabilities :: "PredictionResult \<Rightarrow> (string \<times> rat) list option" where
  "displayed_probabilities r =
     (case r of
        DiseasePredictionResult _ _ _ _ cp _ \<Rightarrow> Some (probability_rows cp)
      | AnnotationPredictionResult _ _ _ _ _ _ \<Rightarrow> None)"

section \<open>Event overlay\<close>

text \<open>
  JavaScript's \<open>x / d\<close>. With \<open>d = 0\<close> the quotient is \<open>Infinity\<close>, \<open>-Infinity\<close> or
  \<open>NaN\<close>, none of them a number of the model: \<open>None\<close>.
\<close>

definition js_div :: "rat \<Rightarrow> rat \<Rightarrow> rat option" where
  "js_div x d = (if d = 0 then None else Some (x / d))"

text \<open>\<open>(q) * 100\<close>, the number in front of the \<open>%\<close> sign of a style value.\<close>

definition percent :: "rat option \<Rightarrow> rat option" where
  "percent q = map_option (\<lambda>v. v * 100) q"

record marker_style =
  left :: "rat option"
  width :: "rat option"

text \<open>The \<open>style\<close> of one event marker (app/page.tsx, lines 855 to 858).\<close>

definition event_marker :: "audio_info \<Rightarrow> detected_event \<Rightarrow> marker_style" where
  "event_marker info event =
     \<lparr>left = percent (js_div (ev_start event) (duration info)),
      width = percent (js_div (ev_end event - ev_start event) (duration info))\<rparr>"

text \<open>\<open>('events' in result && result.events.length > 0) && ... result.events.map(...)\<close>.\<close>

definition event_markers :: "PredictionResult \<Rightarrow> marker_style list" where
  "event_markers r =
     (case r of
        DiseasePredictionResult _ _ _ _ _ _ \<Rightarrow> []
      | AnnotationPredictionResult _ _ _ _ evs info \<Rightarrow>
          if length evs > 0 then map (event_marker info) evs else [])"

section \<open>The other dispatchers of the repository\<close>

text \<open>
  The catch block of \<open>handleUpload\<close> in the earlier page (src/unnamed/part_000,
  lines 93 to 102).
\<close>

definition part_000_catch :: "AxiosError \<Rightarrow> string" where
  "part_000_catch err =
     (if status_is err 500 then ''Server error. Please try again later.''
      else if code err = Some ''ECONNABORTED'' then
        ''Request timeout. The audio file might be too large.''
      else if status_is err 400 then ''Invalid audio file. Please upload a valid audio file.''
      else ''Failed to process audio file. Please check your connection and try again.'')"

text \<open>
  The cells of the earlier page that its \<open>handleUpload\<close> reads or writes (\<open>file\<close>,
  \<open>selectedModel\<close>, \<open>isUploading\<close>, \<open>result\<close>, \<open>error\<close>), its base URL
  \<open>process.env.NEXT_PUBLIC_API_URL || 'https://my-backend.onrender.com'\<close>, its
  \<open>handleUpload\<close> (lines 74 to 106), and its submit button, \<open>disabled={!file || isUploading}\<close>
  (lines 245 to 247).
\<close>

record part_000_state =
  p0_file :: "File option"
  p0_selectedModel :: Model
  p0_isUploading :: bool
  p0_result :: "PredictionResult option"
  p0_error :: "string option"

definition API_BASE_URL_part_000 :: "string option \<Rightarrow> string" where
  "API_BASE_URL_part_000 env =
     (case env of
        None \<Rightarrow> ''https://my-backend.onrender.com''
      | Some u \<Rightarrow> if u = [] then ''https://my-backend.onrender.com'' else u)"

definition handleUpload_part_000 ::
  "string option \<Rightarrow> (request \<Rightarrow> PredictionResult outcome) \<Rightarrow> part_000_state \<Rightarrow>
   part_000_state \<times> request list" where
  "handleUpload_part_000 env net s =
     (case p0_file s of
        None \<Rightarrow> (s, [])
      | Some f \<Rightarrow>
          (let s1 = s\<lparr>p0_isUploading := True, p0_error := None\<rparr>;
               endpoint = (if p0_selectedModel s = Disease then ''/predict_disease''
                           else ''/predict_annotation'');
               rq = \<lparr>http_method = POST,
                     url = API_BASE_URL_part_000 env @ endpoint,
                     data = FormData [(''file'', f)],
                     content_type = ''multipart/form-data'',
                     timeout = Some 30000\<rparr>
           in case net rq of
                Resolved d \<Rightarrow> (s1\<lparr>p0_result := Some d, p0_isUploading := False\<rparr>, [rq])
              | Rejected err \<Rightarrow>
                  (s1\<lparr>p0_error := Some (part_000_catch err), p0_isUploading := False\<rparr>, [rq])))"

definition press_submit_part_000 ::
  "string option \<Rightarrow> (request \<Rightarrow> PredictionResult outcome) \<Rightarrow> part_000_state \<Rightarrow>
   part_000_state \<times> request list" where
  "press_submit_part_000 env net s =
     (if p0_file s = None \<or> p0_isUploading s then (s, []) else handleUpload_part_000 env net s)"

text \<open>
  src/App.jsx: its state cells, \<open>modelOptions\<close> and \<open>handlePredict\<close>. The stored result is
  the raw \<open>response.data\<close>, of any type \<open>'d\<close>.
\<close>

record 'd app_state =
  selectedFile :: "File option"
  app_selectedModel :: string
  isLoading :: bool
  app_result :: "'d option"
  app_error :: "string option"

record model_option =
  opt_value :: string
  opt_label :: string
  opt_endpoint :: string

definition modelOptions :: "model_option list" where
  "modelOptions =
     [\<lparr>opt_value = ''disease'', opt_label = ''Disease Classifier'', opt_endpoint = ''/predict_disease''\<rparr>,
      \<lparr>opt_value = ''event'', opt_label = ''Event Detector'', opt_endpoint = ''/predict_event''\<rparr>]"

text \<open>\<open>err.response?.data?.detail || 'An error occurred while processing the audio file'\<close>.\<close>

definition handlePredict_catch :: "AxiosError option \<Rightarrow> string" where
  "handlePredict_catch e =
     (case e of
        None \<Rightarrow> ''An error occurred while processing the audio file''
      | Some err \<Rightarrow>
          (case response err of
             None \<Rightarrow> ''An error occurred while processing the audio file''
           | Some r \<Rightarrow>
               if truthy (data_detail r) then the (data_detail r)
               else ''An error occurred while processing the audio file''))"

text \<open>
  \<open>handlePredict\<close>. When \<open>find\<close> yields no option, reading \<open>.endpoint\<close> throws inside the
  \<open>try\<close>, and the catch block sees an error without \<open>response\<close>. The options of
  \<open>axios.post\<close> hold no \<open>timeout\<close>.
\<close>

definition handlePredict ::
  "(request \<Rightarrow> 'd outcome) \<Rightarrow> 'd app_state \<Rightarrow> 'd app_state \<times> request list" where
  "handlePredict net s =
     (case selectedFile s of
        None \<Rightarrow> (s\<lparr>app_error := Some ''Please select an audio file first''\<rparr>, [])
      | Some f \<Rightarrow>
          (let s1 = s\<lparr>isLoading := True, app_error := None, app_result := None\<rparr> in
           case find (\<lambda>option. opt_value option = app_selectedModel s) modelOptions of
             None \<Rightarrow> (s1\<lparr>app_error := Some (handlePredict_catch None), isLoading := False\<rparr>, [])
           | Some selectedModelConfig \<Rightarrow>
               (let rq = \<lparr>http_method = POST,
                          url = ''http://localhost:8000'' @ opt_endpoint selectedModelConfig,
                          data = FormData [(''file'', f)],
                          content_type = ''multipart/form-data'',
                          timeout = None\<rparr>
                in case net rq of
                     Resolved d \<Rightarrow> (s1\<lparr>app_result := Some d, isLoading := False\<rparr>, [rq])
                   | Rejected err \<Rightarrow>
                       (s1\<lparr>app_error := Some (handlePredict_catch (Some err)),
                           isLoading := False\<rparr>, [rq]))))"

text \<open>
  A press of the button that calls \<open>handlePredict\<close> (src/App.jsx, lines 149 to 151),
  \<open>disabled={isLoading || !selectedFile}\<close>.
\<close>

definition press_predict ::
  "(request \<Rightarrow> 'd outcome) \<Rightarrow> 'd app_state \<Rightarrow> 'd app_state \<times> request list" where
  "press_predict net s =
     (if isLoading s \<or> selectedFile s = None then (s, []) else handlePredict net s)"

section \<open>Sample sessions\<close>

text \<open>
  Concrete inputs for the closed theorems below: a file, the session after dropping it,
  the session after a recording window with two presses, a session of src/App.jsx and
  one of the earlier page with the file selected, rejections as axios reports them (a timeout, a status without a
  message payload), a classification result over the eight labels of
  \<open>getDiseaseColor\<close>, and the session after that result has arrived.
\<close>

definition sample_file :: File where
  "sample_file = \<lparr>file_name = ''breath.wav'', file_size = 48000, file_type = ''audio/wav''\<rparr>"

definition disease_session :: state where
  "disease_session = run None Home_initial [Drop [sample_file]]"

definition annotation_session :: state where
  "annotation_session =
     run None Home_initial
       [SelectModel Annotation, StartRecording 1000, AddCrackle 2500, AddWheeze 3000,
        StopRecording 5000]"

definition app_session :: "unit app_state" where
  "app_session =
     \<lparr>selectedFile = Some sample_file, app_selectedModel = ''disease'', isLoading = False,
      app_result = None, app_error = None\<rparr>"

definition part_000_session :: part_000_state where
  "part_000_session =
     \<lparr>p0_file = Some sample_file, p0_selectedModel = Disease, p0_isUploading = False,
      p0_result = None, p0_error = None\<rparr>"

definition timeout_rejection :: AxiosError where
  "timeout_rejection =
     \<lparr>response = None, code = Some ''ECONNABORTED'', message = ''timeout of 30000ms exceeded''\<rparr>"

definition status_rejection :: "nat \<Rightarrow> string \<Rightarrow> AxiosError" where
  "status_rejection n msg =
     \<lparr>response = Some \<lparr>status = n, data_error = None, data_detail = None\<rparr>,
      code = Some ''ERR_BAD_RESPONSE'', message = msg\<rparr>"

definition sample_probabilities :: "(string \<times> rat) list" where
  "sample_probabilities =
     [(''Healthy'', 1 / 10), (''COPD'', 2 / 5), (''Pneumonia'', 1 / 10), (''Asthma'', 1 / 5),
      (''Bronchiectasis'', 1 / 20), (''Bronchiolitis'', 1 / 20), (''LRTI'', 1 / 20),
      (''URTI'', 1 / 20)]"

definition sample_result :: PredictionResult where
  "sample_result =
     DiseasePredictionResult True ''breath.wav'' ''COPD'' (2 / 5) sample_probabilities
       \<lparr>duration = 20, sample_rate = 22050\<rparr>"

definition succeeded_session :: state where
  "succeeded_session =
     run None Home_initial [Drop [sample_file], Submit, Settle Disease (Resolved sample_result)]"

section \<open>Facts shared by the proofs\<close>

lemma disease_session_eq:
  "disease_session = Home_initial\<lparr>file := Some sample_file\<rparr>"
  by (simp add: disease_session_def run_def onDrop_def Home_initial_def)

lemma annotation_session_eq:
  "annotation_session =
     Home_initial\<lparr>selectedModel := Annotation,
       annotationEvents :=
         [\<lparr>ev_type = ''crackle'', ev_timestamp = 3 / 2, ev_duration = 1 / 2\<rparr>,
          \<lparr>ev_type = ''wheeze'', ev_timestamp = 2, ev_duration = 1\<rparr>],
       recordingDuration := 4\<rparr>"
  by (simp add: annotation_session_def run_def startRecording_def stopRecording_def
      addCrackle_def addWheeze_def press_timestamp_def Home_initial_def)

lemma succeeded_session_eq:
  "succeeded_session = Home_initial\<lparr>file := Some sample_file, result := Some sample_result\<rparr>"
  by (simp add: succeeded_session_def run_def onDrop_def submit_disabled_def
      handleUpload_dispatch_def handleUpload_settle_def Home_initial_def)

lemma disease_catch_server_error:
  "disease_catch err = ''Server error. Please try again later.'' \<longleftrightarrow> status_is err 500"
  by (simp add: disease_catch_def)

lemma annotation_catch_server_error:
  "annotation_catch err = ''Server error. Please try again later.'' \<longleftrightarrow> status_is err 500"
  by (simp add: annotation_catch_def)

lemma part_000_catch_server_error:
  "part_000_catch err = ''Server error. Please try again later.'' \<longleftrightarrow> status_is err 500"
  by (simp add: part_000_catch_def)

lemma mset_insort_cmp: "mset (insort_cmp cmp x ys) = add_mset x (mset ys)"
  by (induction ys) simp_all

lemma set_insort_cmp: "set (insort_cmp cmp x ys) = insert x (set ys)"
  by (induction ys) auto

lemma mset_sort_cmp: "mset (sort_cmp cmp xs) = mset xs"
  by (induction xs) (simp_all add: sort_cmp_def mset_insort_cmp)

lemma sorted_insort_desc:
  "sorted_wrt (\<lambda>x y. snd y \<le> snd x) ys \<Longrightarrow>
   sorted_wrt (\<lambda>x y. snd y \<le> snd x) (insort_cmp by_probability_desc x ys)"
proof (induction ys)
  case Nil
  then show ?case by simp
next
  case (Cons y ys)
  show ?case
  proof (cases "by_probability_desc x y \<le> 0")
    case True
    then have "snd y \<le> snd x" by (simp add: by_probability_desc_def)
    with Cons.prems True show ?thesis by auto
  next
    case False
    then have "snd x \<le> snd y" by (simp add: by_probability_desc_def)
    with Cons False show ?thesis by (auto simp: set_insort_cmp)
  qed
qed

lemma sorted_sort_desc:
  "sorted_wrt (\<lambda>x y. snd y \<le> snd x) (sort_cmp by_probability_desc xs)"
proof (induction xs)
  case Nil
  then show ?case by (simp add: sort_cmp_def)
next
  case (Cons x xs)
  then show ?case using sorted_insort_desc [of "sort_cmp by_probability_desc xs" x]
    by (simp add: sort_cmp_def)
qed

lemma filter_insort_desc:
  "filter (\<lambda>e. snd e = p) (insort_cmp by_probability_desc x ys) =
     (if snd x = p then x # filter (\<lambda>e. snd e = p) ys else filter (\<lambda>e. snd e = p) ys)"
  by (induction ys) (auto simp: by_probability_desc_def)

lemma filter_sort_desc:
  "filter (\<lambda>e. snd e = p) (sort_cmp by_probability_desc xs) = filter (\<lambda>e. snd e = p) xs"
  by (induction xs) (simp_all add: sort_cmp_def filter_insort_desc)

lemma recording_window_invariant:
  assumes "t0 \<noteq> 0" and "list_all (\<lambda>a. \<not> toggles_recording a) acts"
  shows "isRecording (run env (startRecording t0 s) acts) \<and>
         recordStartTime (run env (startRecording t0 s) acts) = Some t0 \<and>
         (\<forall>e \<in> set (annotationEvents (run env (startRecording t0 s) acts)).
            \<exists>t. (AddCrackle t \<in> set acts \<and>
                   e = \<lparr>ev_type = ''crackle'', ev_timestamp = of_int (t - t0) / 1000,
                        ev_duration = 1 / 2\<rparr>) \<or>
                (AddWheeze t \<in> set acts \<and>
                   e = \<lparr>ev_type = ''wheeze'', ev_timestamp = of_int (t - t0) / 1000,
                        ev_duration = 1\<rparr>))"
  using assms(2)
proof (induction acts rule: rev_induct)
  case Nil
  then show ?case by (simp add: run_def startRecording_def)
next
  case (snoc a acts)
  let ?s = "run env (startRecording t0 s) acts"
  from snoc have ih: "isRecording ?s" "recordStartTime ?s = Some t0"
    and evs: "\<And>e. e \<in> set (annotationEvents ?s) \<Longrightarrow>
            \<exists>t. (AddCrackle t \<in> set acts \<and>
                   e = \<lparr>ev_type = ''crackle'', ev_timestamp = of_int (t - t0) / 1000,
                        ev_duration = 1 / 2\<rparr>) \<or>
                (AddWheeze t \<in> set acts \<and>
                   e = \<lparr>ev_type = ''wheeze'', ev_timestamp = of_int (t - t0) / 1000,
                        ev_duration = 1\<rparr>)"
    by auto
  have r: "run env (startRecording t0 s) (acts @ [a]) = step env ?s a"
    by (simp add: run_def)
  from snoc.prems have na: "\<not> toggles_recording a" by simp
  show ?case
  proof (cases a)
    case (AddCrackle t)
    with ih evs assms(1) show ?thesis
      unfolding r by (auto simp: addCrackle_def press_timestamp_def)
  next
    case (AddWheeze t)
    with ih evs assms(1) show ?thesis
      unfolding r by (auto simp: addWheeze_def press_timestamp_def)
  next
    case (Drop fs)
    with ih evs show ?thesis
      unfolding r by (cases fs) (auto simp: onDrop_def)
  next
    case Submit
    with ih evs show ?thesis
      unfolding r
      by (auto simp: handleUpload_dispatch_def split: Model.splits option.splits if_splits)
  next
    case (Settle m out)
    with ih evs show ?thesis
      unfolding r by (cases out) (auto simp: handleUpload_settle_def)
  next
    case ClearAnnotations
    with ih show ?thesis
      unfolding r by (simp add: clearAnnotations_def)
  next
    case (StartRecording t)
    with na show ?thesis by simp
  next
    case (StopRecording t)
    with na show ?thesis by simp
  next
    case RemoveFile
    with ih evs show ?thesis unfolding r by auto
  next
    case (SelectModel m)
    with ih evs show ?thesis unfolding r by auto
  qed
qed

section \<open>Dispatch\<close>



section \<open>Timeouts\<close>

text \<open>
  C2, as the claim states it, fails twice. A request of the annotation branch that times
  out leaves the message \<open>Request timeout. Please try again.\<close>, which says nothing of an
  oversized input; and the request \<open>handlePredict\<close> of src/App.jsx issues carries no
  timeout at all.
\<close>

theorem timeout_message_counterexample:
  "error (fst (handleUpload None (\<lambda>_. Rejected timeout_rejection) annotation_session)) =
     Some ''Request timeout. Please try again.'' \<and>
   map timeout (snd (handlePredict (\<lambda>_. Rejected timeout_rejection) app_session)) = [None]"
  by (simp add: handleUpload_def handleUpload_dispatch_def handleUpload_settle_def
      annotation_session_eq Home_initial_def annotation_catch_def status_is_def truthy_def
      response_data_error_def timeout_rejection_def handlePredict_def modelOptions_def
      app_session_def)

text \<open>
  C2, amended. Every request \<open>handleUpload\<close> of the main page dispatches carries a
  client-side timeout of 30000 ms. A request that times out (axios rejects it with the
  code \<open>ECONNABORTED\<close> and no response) leaves the timeout message of its branch and not
  the generic failure message: \<open>Request timeout. The audio file might be too large.\<close> in
  disease mode, \<open>Request timeout. Please try again.\<close> in annotation mode.
\<close>

theorem handleUpload_timeout:
  assumes "selectedModel s = Disease" and "file s = Some f"
    and "selectedModel a = Annotation" and "annotationEvents a \<noteq> []"
    and "response err = None" and "code err = Some ''ECONNABORTED''"
  shows "list_all (\<lambda>rq. timeout rq = Some 30000)
           (snd (handleUpload env net s) @ snd (handleUpload env net a)) \<and>
         error (fst (handleUpload env (\<lambda>_. Rejected err) s)) =
           Some ''Request timeout. The audio file might be too large.'' \<and>
         error (fst (handleUpload env (\<lambda>_. Rejected err) a)) =
           Some ''Request timeout. Please try again.'' \<and>
         error (fst (handleUpload env (\<lambda>_. Rejected err) s)) \<noteq>
           Some (''Failed to process audio file: '' @ message err) \<and>
         error (fst (handleUpload env (\<lambda>_. Rejected err) a)) \<noteq>
           Some (''Failed to process annotation data: '' @ message err)"
  using assms
  by (simp add: handleUpload_def handleUpload_dispatch_def handleUpload_settle_def
      disease_catch_def annotation_catch_def status_is_def truthy_def response_data_error_def)

theorem handleUpload_timeout_witness:
  "selectedModel disease_session = Disease \<and> file disease_session = Some sample_file \<and>
   selectedModel annotation_session = Annotation \<and> annotationEvents annotation_session \<noteq> [] \<and>
   response timeout_rejection = None \<and> code timeout_rejection = Some ''ECONNABORTED'' \<and>
   map timeout (snd (handleUpload None (\<lambda>_. Rejected timeout_rejection) disease_session)) =
     [Some 30000] \<and>
   error (fst (handleUpload None (\<lambda>_. Rejected timeout_rejection) disease_session)) =
     Some ''Request timeout. The audio file might be too large.'' \<and>
   error (fst (handleUpload None (\<lambda>_. Rejected timeout_rejection) annotation_session)) =
     Some ''Request timeout. Please try again.''"
proof -
  have d: "selectedModel disease_session = Disease" "file disease_session = Some sample_file"
    by (simp_all add: disease_session_eq Home_initial_def)
  have a: "selectedModel annotation_session = Annotation"
    "annotationEvents annotation_session \<noteq> []"
    by (simp_all add: annotation_session_eq Home_initial_def)
  have e: "response timeout_rejection = None" "code timeout_rejection = Some ''ECONNABORTED''"
    by (simp_all add: timeout_rejection_def)
  have rq: "map timeout (snd (handleUpload None (\<lambda>_. Rejected timeout_rejection) disease_session)) =
     [Some 30000]"
    by (simp add: handleUpload_def handleUpload_dispatch_def disease_session_eq Home_initial_def)
  show ?thesis
    using handleUpload_timeout [OF d a e, of None "\<lambda>_. Rejected timeout_rejection"] d a e rq
    by blast
qed

section \<open>Server errors\<close>

text \<open>
  C3, as the claim states it, fails: the catch blocks test \<open>err.response?.status === 500\<close>,
  so a 503 without a message payload is reported through the last branch.
\<close>

theorem server_error_503_counterexample:
  "error (fst (handleUpload None
      (\<lambda>_. Rejected (status_rejection 503 ''Request failed with status code 503''))
      disease_session)) =
     Some ''Failed to process audio file: Request failed with status code 503''"
  by (simp add: handleUpload_def handleUpload_dispatch_def handleUpload_settle_def
      disease_session_eq Home_initial_def disease_catch_def status_is_def truthy_def
      response_data_error_def status_rejection_def)

text \<open>
  C3, amended. For every submission through \<open>handleUpload\<close> of the main page
  (app/page.tsx, either branch) or through \<open>handleUpload\<close> of the earlier page
  (src/unnamed/part_000) whose HTTP response has the status 500, the failure is
  classified as a server error and the message \<open>Server error. Please try again later.\<close>
  is shown; a response with any other status, the other 5xx codes included, never
  leaves that message there.
\<close>

theorem server_error_only_for_500:
  assumes "selectedModel s = Disease" and "file s = Some f"
    and "selectedModel a = Annotation" and "annotationEvents a \<noteq> []"
    and "p0_file p = Some g"
    and "response err = Some r"
  shows "(error (fst (handleUpload env (\<lambda>_. Rejected err) s)) =
            Some ''Server error. Please try again later.'' \<longleftrightarrow> status r = 500) \<and>
         (error (fst (handleUpload env (\<lambda>_. Rejected err) a)) =
            Some ''Server error. Please try again later.'' \<longleftrightarrow> status r = 500) \<and>
         (p0_error (fst (handleUpload_part_000 env (\<lambda>_. Rejected err) p)) =
            Some ''Server error. Please try again later.'' \<longleftrightarrow> status r = 500)"
  using assms
  by (simp add: handleUpload_def handleUpload_dispatch_def handleUpload_settle_def
      handleUpload_part_000_def
      disease_catch_server_error annotation_catch_server_error part_000_catch_server_error
      status_is_def)

theorem server_error_only_for_500_witness:
  "selectedModel disease_session = Disease \<and> file disease_session = Some sample_file \<and>
   selectedModel annotation_session = Annotation \<and> annotationEvents annotation_session \<noteq> [] \<and>
   p0_file part_000_session = Some sample_file \<and>
   response (status_rejection 500 ''Request failed with status code 500'') =
     Some \<lparr>status = 500, data_error = None, data_detail = None\<rparr> \<and>
   error (fst (handleUpload None
      (\<lambda>_. Rejected (status_rejection 500 ''Request failed with status code 500''))
      disease_session)) = Some ''Server error. Please try again later.'' \<and>
   error (fst (handleUpload None
      (\<lambda>_. Rejected (status_rejection 500 ''Request failed with status code 500''))
      annotation_session)) = Some ''Server error. Please try again later.'' \<and>
   p0_error (fst (handleUpload_part_000 None
      (\<lambda>_. Rejected (status_rejection 500 ''Request failed with status code 500''))
      part_000_session)) = Some ''Server error. Please try again later.''"
proof -
  have d: "selectedModel disease_session = Disease" "file disease_session = Some sample_file"
    by (simp_all add: disease_session_eq Home_initial_def)
  have a: "selectedModel annotation_session = Annotation"
    "annotationEvents annotation_session \<noteq> []"
    by (simp_all add: annotation_session_eq Home_initial_def)
  have p: "p0_file part_000_session = Some sample_file"
    by (simp add: part_000_session_def)
  have e: "response (status_rejection 500 ''Request failed with status code 500'') =
     Some \<lparr>status = 500, data_error = None, data_detail = None\<rparr>"
    by (simp add: status_rejection_def)
  show ?thesis
    using server_error_only_for_500 [OF d a p e, of None] d a p e
    by simp
qed

section \<open>Submissions without input\<close>

text \<open>
  C4, as the claim states it, fails: in annotation mode with no recorded event the
  submit button is disabled, so a press runs no handler and no message appears.
\<close>

theorem press_submit_no_events_counterexample:
  "selectedModel (run None Home_initial [SelectModel Annotation]) = Annotation \<and>
   annotationEvents (run None Home_initial [SelectModel Annotation]) = [] \<and>
   error (fst (press_submit None (\<lambda>_. Rejected timeout_rejection)
                 (run None Home_initial [SelectModel Annotation]))) = None \<and>
   error (run None Home_initial [SelectModel Annotation, Submit]) = None"
  by (simp add: run_def press_submit_def submit_disabled_def Home_initial_def)

text \<open>
  C4, amended. In annotation mode, if the recorded event sequence is empty, the submit
  button is disabled and pressing it is a no-op: no network call, no entry into the
  Submitting state, and no message; the state is what it was, error included. The
  message \<open>Please record some crackles or wheezes first.\<close> is set only by the guard of
  \<open>handleUpload\<close> itself, which in that state issues no request and leaves
  \<open>isUploading\<close> as it was; no press of the button reaches it.
\<close>

theorem press_submit_no_events:
  assumes "selectedModel s = Annotation" and "annotationEvents s = []"
  shows "press_submit env net s = (s, []) \<and>
         handleUpload env net s =
           (s\<lparr>error := Some ''Please record some crackles or wheezes first.''\<rparr>, []) \<and>
         isUploading (fst (handleUpload env net s)) = isUploading s"
  using assms
  by (simp add: press_submit_def submit_disabled_def handleUpload_def handleUpload_dispatch_def)

theorem press_submit_no_events_witness:
  "selectedModel (run None Home_initial [SelectModel Annotation]) = Annotation \<and>
   annotationEvents (run None Home_initial [SelectModel Annotation]) = [] \<and>
   press_submit None (\<lambda>_. Rejected timeout_rejection)
       (run None Home_initial [SelectModel Annotation]) =
     (run None Home_initial [SelectModel Annotation], []) \<and>
   snd (handleUpload None (\<lambda>_. Rejected timeout_rejection)
          (run None Home_initial [SelectModel Annotation])) = [] \<and>
   error (fst (handleUpload None (\<lambda>_. Rejected timeout_rejection)
          (run None Home_initial [SelectModel Annotation]))) =
     Some ''Please record some crackles or wheezes first.'' \<and>
   isUploading (fst (handleUpload None (\<lambda>_. Rejected timeout_rejection)
          (run None Home_initial [SelectModel Annotation]))) = False"
proof -
  have m: "selectedModel (run None Home_initial [SelectModel Annotation]) = Annotation"
    and n: "annotationEvents (run None Home_initial [SelectModel Annotation]) = []"
    and v: "isUploading (run None Home_initial [SelectModel Annotation]) = False"
    by (simp_all add: run_def Home_initial_def)
  show ?thesis
    using press_submit_no_events [OF m n, of None "\<lambda>_. Rejected timeout_rejection"] m n v
    by simp
qed

text \<open>
  C8, as the claim states it, fails: in disease mode without a file the submit button
  is disabled, a press changes nothing, and \<open>handleUpload\<close> itself returns at its guard
  without setting a message.
\<close>

theorem press_submit_no_file_counterexample:
  "selectedModel Home_initial = Disease \<and> file Home_initial = None \<and>
   error (fst (press_submit None (\<lambda>_. Rejected timeout_rejection) Home_initial)) = None \<and>
   error (fst (handleUpload None (\<lambda>_. Rejected timeout_rejection) Home_initial)) = None"
  by (simp add: press_submit_def submit_disabled_def handleUpload_def handleUpload_dispatch_def
      Home_initial_def)

text \<open>
  C8, amended. Submitting when no input is selected for the active model variant is
  blocked before any network call, and no message is surfaced: the submit button is
  disabled in that state, in the main page, in the earlier page and in src/App.jsx, so a
  press runs no handler and leaves the state, error included, as it was. In disease mode
  \<open>handleUpload\<close> of the main page, were it run without a file, returns without a
  request and without a message.
\<close>

theorem submit_blocked_without_input:
  assumes "(selectedModel s = Disease \<and> file s = None) \<or>
           (selectedModel s = Annotation \<and> annotationEvents s = [])"
    and "p0_file p = None"
    and "selectedFile q = None"
  shows "press_submit env net s = (s, []) \<and>
         (selectedModel s = Disease \<longrightarrow> handleUpload env net s = (s, [])) \<and>
         press_submit_part_000 env net p = (p, []) \<and>
         press_predict net' q = (q, [])"
  using assms
  by (auto simp: press_submit_def submit_disabled_def handleUpload_def handleUpload_dispatch_def
      press_submit_part_000_def press_predict_def)

theorem submit_blocked_without_input_witness:
  "((selectedModel Home_initial = Disease \<and> file Home_initial = None) \<or>
    (selectedModel Home_initial = Annotation \<and> annotationEvents Home_initial = [])) \<and>
   p0_file (part_000_session\<lparr>p0_file := None\<rparr>) = None \<and>
   selectedFile (app_session\<lparr>selectedFile := None\<rparr>) = None \<and>
   press_submit None (\<lambda>_. Rejected timeout_rejection) Home_initial = (Home_initial, []) \<and>
   handleUpload None (\<lambda>_. Rejected timeout_rejection) Home_initial = (Home_initial, []) \<and>
   press_submit_part_000 None (\<lambda>_. Rejected timeout_rejection)
       (part_000_session\<lparr>p0_file := None\<rparr>) = (part_000_session\<lparr>p0_file := None\<rparr>, []) \<and>
   press_predict (\<lambda>_. Rejected timeout_rejection) (app_session\<lparr>selectedFile := None\<rparr>) =
     (app_session\<lparr>selectedFile := None\<rparr>, [])"
proof -
  have d: "selectedModel Home_initial = Disease" "file Home_initial = None"
    by (simp_all add: Home_initial_def)
  then have s: "(selectedModel Home_initial = Disease \<and> file Home_initial = None) \<or>
    (selectedModel Home_initial = Annotation \<and> annotationEvents Home_initial = [])"
    by simp
  have p: "p0_file (part_000_session\<lparr>p0_file := None\<rparr>) = None"
    by simp
  have q: "selectedFile (app_session\<lparr>selectedFile := None\<rparr>) = None"
    by simp
  show ?thesis
    using submit_blocked_without_input
      [OF s p q, of None "\<lambda>_. Rejected timeout_rejection" "\<lambda>_. Rejected timeout_rejection"]
      d s p q
    by blast
qed

section \<open>What a failed submission keeps\<close>

text \<open>
  C5. Whatever the outcome of a submission, and so after every failed one, the selected
  file, the recorded event sequence and the recorded duration are what they were
  before it.
\<close>

theorem handleUpload_keeps_input:
  "file (fst (handleUpload env net s)) = file s \<and>
   annotationEvents (fst (handleUpload env net s)) = annotationEvents s \<and>
   recordingDuration (fst (handleUpload env net s)) = recordingDuration s"
  by (simp add: handleUpload_def handleUpload_dispatch_def handleUpload_settle_def
      split: Model.splits option.splits outcome.splits)

text \<open>
  C9. A submission that fails leaves the stored result unchanged. When a request was
  dispatched, the error was cleared before the dispatch and holds a non-empty message
  after the failure, so an earlier result stays on the page beside the new message.
\<close>

theorem failed_submission_keeps_result:
  "result (fst (handleUpload env (\<lambda>_. Rejected err) s)) = result s \<and>
   (snd (handleUpload env (\<lambda>_. Rejected err) s) \<noteq> [] \<longrightarrow>
      error (fst (handleUpload_dispatch env s)) = None \<and>
      (\<exists>m. error (fst (handleUpload env (\<lambda>_. Rejected err) s)) = Some m \<and> m \<noteq> []))"
  by (simp add: handleUpload_def handleUpload_dispatch_def handleUpload_settle_def
      disease_catch_def annotation_catch_def
      split: Model.splits option.splits)

theorem failed_submission_keeps_result_witness:
  "snd (handleUpload None
          (\<lambda>_. Rejected (status_rejection 500 ''Request failed with status code 500''))
          succeeded_session) \<noteq> [] \<and>
   result (fst (handleUpload None
          (\<lambda>_. Rejected (status_rejection 500 ''Request failed with status code 500''))
          succeeded_session)) = Some sample_result \<and>
   error (fst (handleUpload_dispatch None succeeded_session)) = None \<and>
   error (fst (handleUpload None
          (\<lambda>_. Rejected (status_rejection 500 ''Request failed with status code 500''))
          succeeded_session)) = Some ''Server error. Please try again later.''"
proof -
  have rq: "snd (handleUpload None
          (\<lambda>_. Rejected (status_rejection 500 ''Request failed with status code 500''))
          succeeded_session) \<noteq> []"
    by (simp add: handleUpload_def handleUpload_dispatch_def succeeded_session_eq
        Home_initial_def)
  have r: "result succeeded_session = Some sample_result"
    by (simp add: succeeded_session_eq Home_initial_def)
  have e: "error (fst (handleUpload None
          (\<lambda>_. Rejected (status_rejection 500 ''Request failed with status code 500''))
          succeeded_session)) = Some ''Server error. Please try again later.''"
    by (simp add: handleUpload_def handleUpload_dispatch_def handleUpload_settle_def
        succeeded_session_eq Home_initial_def disease_catch_def status_is_def
        status_rejection_def)
  show ?thesis
    using failed_submission_keeps_result [of None
        "status_rejection 500 ''Request failed with status code 500''" succeeded_session]
      rq r e
    by simp
qed

section \<open>Class probabilities\<close>

text \<open>
  C6, as the claim states it, fails on the main page: the sorted list is cut to its
  first five rows, so with the eight labels of the classifier three are not shown.
\<close>

theorem probability_rows_drops_labels_counterexample:
  "(''URTI'', 1 / 20) \<in> set sample_probabilities \<and>
   (''URTI'', 1 / 20) \<notin> set (probability_rows sample_probabilities) \<and>
   probability_rows sample_probabilities =
     [(''COPD'', 2 / 5), (''Asthma'', 1 / 5), (''Healthy'', 1 / 10), (''Pneumonia'', 1 / 10),
      (''Bronchiectasis'', 1 / 20)]"
  by (simp add: sample_probabilities_def probability_rows_def sort_cmp_def by_probability_desc_def)

text \<open>
  C6, amended. For every classification-shape result the main page shows the first five
  rows (all of them when there are at most five) of the label probabilities sorted by
  descending probability, ties keeping the order of the labels; the earlier page shows
  the whole sorted list. The sorted list is a rearrangement of the entries, its
  probabilities never increase, and the entries of each probability appear in it in
  their original order.
\<close>

theorem probability_rows_top_five:
  "probability_rows entries = take 5 (sort_cmp by_probability_desc entries) \<and>
   probability_rows_part_000 entries = sort_cmp by_probability_desc entries \<and>
   mset (sort_cmp by_probability_desc entries) = mset entries \<and>
   sorted_wrt (\<lambda>x y. snd y \<le> snd x) (sort_cmp by_probability_desc entries) \<and>
   (\<forall>p. filter (\<lambda>e. snd e = p) (sort_cmp by_probability_desc entries) =
          filter (\<lambda>e. snd e = p) entries)"
proof -
  have shown: "probability_rows entries = take 5 (sort_cmp by_probability_desc entries)"
    "probability_rows_part_000 entries = sort_cmp by_probability_desc entries"
    by (simp_all add: probability_rows_def probability_rows_part_000_def)
  moreover have "mset (sort_cmp by_probability_desc entries) = mset entries"
    by (rule mset_sort_cmp)
  moreover have "sorted_wrt (\<lambda>x y. snd y \<le> snd x) (sort_cmp by_probability_desc entries)"
    by (rule sorted_sort_desc)
  moreover have "filter (\<lambda>e. snd e = p) (sort_cmp by_probability_desc entries) =
      filter (\<lambda>e. snd e = p) entries" for p
    by (rule filter_sort_desc)
  ultimately show ?thesis by blast
qed

section \<open>Interval overlay\<close>

text \<open>
  C7. For every event-detection result with a non-zero audio duration and every
  detected interval in it, well formed or not, the marker's \<open>left\<close> is
  \<open>start / duration\<close> and its \<open>width\<close> is \<open>(end - start) / duration\<close>, each written as
  a percentage: the code applies no clamp. For an interval of a well-formed response,
  that is, with a positive audio duration and \<open>0 \<le> start \<le> end \<le> duration\<close>, both
  fractions lie between 0 and 1.
\<close>

theorem event_marker_fractions:
  "(duration info \<noteq> 0 \<longrightarrow>
      event_markers (AnnotationPredictionResult ok fname d c evs info) =
        map (\<lambda>e. \<lparr>left = Some (ev_start e / duration info * 100),
                  width = Some ((ev_end e - ev_start e) / duration info * 100)\<rparr>) evs \<and>
      left (event_marker info event) = Some (ev_start event / duration info * 100) \<and>
      width (event_marker info event) =
        Some ((ev_end event - ev_start event) / duration info * 100)) \<and>
   (0 < duration info \<and> 0 \<le> ev_start event \<and> ev_start event \<le> ev_end event \<and>
    ev_end event \<le> duration info \<longrightarrow>
      0 \<le> ev_start event / duration info \<and> ev_start event / duration info \<le> 1 \<and>
      0 \<le> (ev_end event - ev_start event) / duration info \<and>
      (ev_end event - ev_start event) / duration info \<le> 1)"
proof (intro conjI impI)
  assume nz: "duration info \<noteq> 0"
  then have m: "event_marker info e =
      \<lparr>left = Some (ev_start e / duration info * 100),
       width = Some ((ev_end e - ev_start e) / duration info * 100)\<rparr>" for e
    by (simp add: event_marker_def js_div_def percent_def)
  show "event_markers (AnnotationPredictionResult ok fname d c evs info) =
        map (\<lambda>e. \<lparr>left = Some (ev_start e / duration info * 100),
                  width = Some ((ev_end e - ev_start e) / duration info * 100)\<rparr>) evs"
    by (simp add: event_markers_def m)
  show "left (event_marker info event) = Some (ev_start event / duration info * 100)"
    by (simp add: m)
  show "width (event_marker info event) =
        Some ((ev_end event - ev_start event) / duration info * 100)"
    by (simp add: m)
next
  assume b: "0 < duration info \<and> 0 \<le> ev_start event \<and> ev_start event \<le> ev_end event \<and>
    ev_end event \<le> duration info"
  then show "0 \<le> ev_start event / duration info" by simp
  from b show "ev_start event / duration info \<le> 1" by simp
  from b show "0 \<le> (ev_end event - ev_start event) / duration info" by simp
  from b show "(ev_end event - ev_start event) / duration info \<le> 1" by simp
qed

theorem event_marker_fractions_witness:
  "duration \<lparr>duration = 20, sample_rate = 22050\<rparr> \<noteq> 0 \<and>
   (0 :: rat) < 20 \<and> (0 :: rat) \<le> 5 \<and> (5 :: rat) \<le> 8 \<and> (8 :: rat) \<le> 20 \<and>
   event_markers (AnnotationPredictionResult True ''breath.wav'' ''COPD'' (4 / 5)
     [\<lparr>ev_start = 5, ev_end = 8, ev_label = ''wheeze'', ev_confidence = 9 / 10\<rparr>,
      \<lparr>ev_start = 30, ev_end = 27, ev_label = ''crackle'', ev_confidence = 1 / 2\<rparr>]
     \<lparr>duration = 20, sample_rate = 22050\<rparr>) =
     [\<lparr>left = Some 25, width = Some 15\<rparr>, \<lparr>left = Some 150, width = Some (- 15)\<rparr>] \<and>
   (0 :: rat) \<le> 5 / 20 \<and> (5 :: rat) / 20 \<le> 1 \<and> (0 :: rat) \<le> (8 - 5) / 20 \<and>
   ((8 :: rat) - 5) / 20 \<le> 1"
proof -
  have nz: "duration \<lparr>duration = 20, sample_rate = 22050\<rparr> \<noteq> 0"
    by simp
  show ?thesis
    using event_marker_fractions
      [of "\<lparr>duration = 20, sample_rate = 22050\<rparr>" True "''breath.wav''" "''COPD''" "4 / 5"
        "[\<lparr>ev_start = 5, ev_end = 8, ev_label = ''wheeze'', ev_confidence = 9 / 10\<rparr>,
          \<lparr>ev_start = 30, ev_end = 27, ev_label = ''crackle'', ev_confidence = 1 / 2\<rparr>]"
        "\<lparr>ev_start = 5, ev_end = 8, ev_label = ''wheeze'', ev_confidence = 9 / 10\<rparr>"]
      nz
    by simp
qed

section \<open>Recording windows\<close>

text \<open>
  C10. \<open>startRecording\<close> empties the event sequence, sets the recorded duration to 0 and
  clears the result and the error, whatever they were. From there, as long as the window
  is neither closed nor reopened, the window stays open and every event of the sequence
  was appended by a press of that window, with the time since the window's start as
  its timestamp. \<open>Date.now()\<close> is taken to be non-zero at the start, as it is at any
  moment but the epoch itself.
\<close>

theorem startRecording_opens_fresh_window:
  "annotationEvents (startRecording t0 s) = [] \<and>
   recordingDuration (startRecording t0 s) = 0 \<and>
   result (startRecording t0 s) = None \<and>
   error (startRecording t0 s) = None \<and>
   (t0 \<noteq> 0 \<and> list_all (\<lambda>a. \<not> toggles_recording a) acts \<longrightarrow>
      isRecording (run env (startRecording t0 s) acts) \<and>
      (\<forall>e \<in> set (annotationEvents (run env (startRecording t0 s) acts)).
         \<exists>t. (AddCrackle t \<in> set acts \<and>
                e = \<lparr>ev_type = ''crackle'', ev_timestamp = of_int (t - t0) / 1000,
                     ev_duration = 1 / 2\<rparr>) \<or>
             (AddWheeze t \<in> set acts \<and>
                e = \<lparr>ev_type = ''wheeze'', ev_timestamp = of_int (t - t0) / 1000,
                     ev_duration = 1\<rparr>)))"
proof -
  have reset: "annotationEvents (startRecording t0 s) = []"
    "recordingDuration (startRecording t0 s) = 0"
    "result (startRecording t0 s) = None" "error (startRecording t0 s) = None"
    by (simp_all add: startRecording_def)
  show ?thesis
  proof (cases "t0 \<noteq> 0 \<and> list_all (\<lambda>a. \<not> toggles_recording a) acts")
    case True
    then show ?thesis
      using recording_window_invariant [of t0 acts env s] reset by simp
  next
    case False
    with reset show ?thesis by blast
  qed
qed

theorem startRecording_opens_fresh_window_witness:
  "(6000 :: int) \<noteq> 0 \<and>
   list_all (\<lambda>a. \<not> toggles_recording a) [AddWheeze 7000, Submit, AddCrackle 7500] \<and>
   annotationEvents annotation_session \<noteq> [] \<and>
   annotationEvents (startRecording 6000 annotation_session) = [] \<and>
   recordingDuration (startRecording 6000 annotation_session) = 0 \<and>
   isRecording (run None (startRecording 6000 annotation_session)
     [AddWheeze 7000, Submit, AddCrackle 7500]) \<and>
   annotationEvents (run None (startRecording 6000 annotation_session)
     [AddWheeze 7000, Submit, AddCrackle 7500]) =
     [\<lparr>ev_type = ''wheeze'', ev_timestamp = 1, ev_duration = 1\<rparr>,
      \<lparr>ev_type = ''crackle'', ev_timestamp = 3 / 2, ev_duration = 1 / 2\<rparr>]"
proof -
  have t: "(6000 :: int) \<noteq> 0" by simp
  have a: "list_all (\<lambda>a. \<not> toggles_recording a) [AddWheeze 7000, Submit, AddCrackle 7500]"
    by simp
  have old: "annotationEvents annotation_session \<noteq> []"
    by (simp add: annotation_session_eq Home_initial_def)
  have evs: "annotationEvents (run None (startRecording 6000 annotation_session)
     [AddWheeze 7000, Submit, AddCrackle 7500]) =
     [\<lparr>ev_type = ''wheeze'', ev_timestamp = 1, ev_duration = 1\<rparr>,
      \<lparr>ev_type = ''crackle'', ev_timestamp = 3 / 2, ev_duration = 1 / 2\<rparr>]"
    by (simp add: run_def startRecording_def addWheeze_def addCrackle_def press_timestamp_def
        submit_disabled_def handleUpload_dispatch_def annotation_session_eq Home_initial_def)
  show ?thesis
    using startRecording_opens_fresh_window
        [of 6000 annotation_session "[AddWheeze 7000, Submit, AddCrackle 7500]" None]
      t a old evs
    by simp
qed

end
